theory Spec2Isabelle
  imports Main
begin

section \<open>JavaScript values\<close>

text \<open>
  A JavaScript \<open>number\<close>, as far as the server computes with it: an integer-valued
  double or \<open>NaN\<close>. The configured timeout and complexity ceiling, the field count and
  an HTTP status are numbers of this kind. Fractional and infinite values are left out.
\<close>

datatype jsnum = Num int | NaN

text \<open>\<open>a > b\<close>: every comparison with \<open>NaN\<close> is false.\<close>

fun js_gt :: "jsnum \<Rightarrow> jsnum \<Rightarrow> bool" where
  "js_gt (Num a) (Num b) = (a > b)"
| "js_gt _ _ = False"

text \<open>The number of binary digits of a natural number.\<close>

fun bit_length :: "nat \<Rightarrow> nat" where
  "bit_length n = (if n = 0 then 0 else Suc (bit_length (n div 2)))"

declare bit_length.simps [simp del]

text \<open>
  The double nearest to an integer: a double has 53 significant binary digits, so an
  integer of magnitude up to \<open>2^53\<close> is a double, and a larger one is rounded to the
  nearest multiple of the unit in its last place, a tie going to the even neighbour.
  The overflow to an infinite value, beyond the largest double, is left out.
\<close>

definition round_to_double :: "int \<Rightarrow> int" where
  "round_to_double n =
     (if \<bar>n\<bar> \<le> 2 ^ 53 then n
      else
        (let u = 2 ^ (bit_length (nat \<bar>n\<bar>) - 53);
             q = \<bar>n\<bar> div u;
             r = \<bar>n\<bar> mod u;
             m = (if 2 * r < u \<or> (2 * r = u \<and> even q) then q * u else (q + 1) * u)
         in sgn n * m))"

text \<open>
  \<open>a + b\<close> on numbers: the exact sum rounded to a double; \<open>NaN\<close> is absorbing.
\<close>

fun js_plus :: "jsnum \<Rightarrow> jsnum \<Rightarrow> jsnum" where
  "js_plus (Num a) (Num b) = Num (round_to_double (a + b))"
| "js_plus _ _ = NaN"

text \<open>Decimal notation, as a template literal renders a number.\<close>

fun show_nat :: "nat \<Rightarrow> string" where
  "show_nat n =
     (if n < 10 then [''0123456789'' ! n]
      else show_nat (n div 10) @ [''0123456789'' ! (n mod 10)])"

declare show_nat.simps [simp del]

definition show_int :: "int \<Rightarrow> string" where
  "show_int i = (if i < 0 then ''-'' @ show_nat (nat (- i)) else show_nat (nat i))"

fun show_num :: "jsnum \<Rightarrow> string" where
  "show_num (Num i) = show_int i"
| "show_num NaN = ''NaN''"

text \<open>
  \<open>a ?? b\<close>: the right operand is taken only when the left one is \<open>null\<close> or
  \<open>undefined\<close> (\<open>None\<close>).
\<close>

definition nullish :: "'a option \<Rightarrow> 'a \<Rightarrow> 'a" where
  "nullish a b = (case a of None \<Rightarrow> b | Some v \<Rightarrow> v)"

text \<open>
  Instances of \<open>Error\<close>. An \<open>AxiosError\<close> carries its message, the status of the
  response when one arrived (\<open>error.response\<close>), and whether a request was sent
  (\<open>error.request\<close>). Every other instance of \<open>Error\<close> (a \<open>GraphQLError\<close> of the
  parser, a \<open>SyntaxError\<close> of \<open>JSON.parse\<close>, a \<open>TypeError\<close>) is its message.
\<close>

datatype js_error = AxiosError string "jsnum option" bool | Error string

text \<open>
  A value of type \<open>unknown\<close>, as \<open>sanitizeErrorMessage\<close> looks at it: an instance of
  \<open>Error\<close>, or any other value, given by what \<open>String(value)\<close> does with it. \<open>String\<close>
  yields the string form, or raises a \<open>TypeError\<close> when the value has no conversion to
  a primitive, as an object with a null prototype has none: \<open>NonError None\<close>.
\<close>

datatype unknown = ErrorInstance js_error | NonError "string option"

fun js_String :: "string option \<Rightarrow> js_error + string" where
  "js_String (Some s) = Inr s"
| "js_String None = Inl (Error ''Cannot convert object to primitive value'')"

section \<open>Configuration (config.ts)\<close>

text \<open>
  What \<open>parseArguments\<close> reads: the flags given on the command line (\<open>None\<close>: flag not
  given) and the environment variables (\<open>None\<close>: variable not set).
\<close>

record cli_flags =
  flag_endpoint :: "string option"
  flag_headers :: "string option"
  flag_timeout :: "jsnum option"
  flag_maxComplexity :: "jsnum option"

record process_env =
  ENDPOINT :: "string option"
  TIMEOUT :: "string option"
  MAX_DEPTH :: "string option"

record argv =
  argv_endpoint :: string
  argv_headers :: "string option"
  argv_timeout :: jsnum
  argv_maxComplexity :: jsnum

text \<open>
  \<open>Number(process.env.X)\<close>: \<open>Number(undefined)\<close> is \<open>NaN\<close>; the conversion of a string
  is the parameter \<open>to_number\<close>. The result is a number, never \<open>undefined\<close>.
\<close>

definition js_Number :: "(string \<Rightarrow> jsnum) \<Rightarrow> string option \<Rightarrow> jsnum" where
  "js_Number to_number v = (case v of None \<Rightarrow> NaN | Some s \<Rightarrow> to_number s)"

text \<open>An option of yargs: the flag's value when the flag is given, else the default.\<close>

definition yargs_option :: "'a option \<Rightarrow> 'a \<Rightarrow> 'a" where
  "yargs_option flag dflt = (case flag of Some v \<Rightarrow> v | None \<Rightarrow> dflt)"

definition parseArguments :: "(string \<Rightarrow> jsnum) \<Rightarrow> cli_flags \<Rightarrow> process_env \<Rightarrow> argv" where
  "parseArguments to_number flags env =
     \<lparr> argv_endpoint =
         yargs_option (flag_endpoint flags) (nullish (ENDPOINT env) ''http://localhost:4000/graphql''),
       argv_headers = flag_headers flags,
       argv_timeout =
         yargs_option (flag_timeout flags)
           (nullish (Some (js_Number to_number (TIMEOUT env))) (Num 30000)),
       argv_maxComplexity =
         yargs_option (flag_maxComplexity flags)
           (nullish (Some (js_Number to_number (MAX_DEPTH env))) (Num 100)) \<rparr>"

record Config =
  endpoint :: string
  maxQueryComplexity :: jsnum
  timeout :: jsnum
  headers :: "string \<rightharpoonup> string"
  version :: string

text \<open>
  The constructor of \<open>Config\<close>. \<open>parse_headers\<close> is \<open>JSON.parse\<close> on the headers flag
  followed by the copy of \<open>Object.assign\<close>: \<open>None\<close> when \<open>JSON.parse\<close> raises, in which
  case the error is logged and the headers stay empty. The empty string is falsy.
\<close>

definition new_Config ::
  "(string \<Rightarrow> jsnum) \<Rightarrow> (string \<Rightarrow> (string \<rightharpoonup> string) option) \<Rightarrow> string
     \<Rightarrow> cli_flags \<Rightarrow> process_env \<Rightarrow> Config" where
  "new_Config to_number parse_headers packageVersion flags env =
     (let argv = parseArguments to_number flags env in
      \<lparr> endpoint = argv_endpoint argv,
        maxQueryComplexity = argv_maxComplexity argv,
        timeout = argv_timeout argv,
        headers =
          (case argv_headers argv of
             None \<Rightarrow> Map.empty
           | Some s \<Rightarrow>
               if s = [] then Map.empty
               else (case parse_headers s of None \<Rightarrow> Map.empty | Some h \<Rightarrow> Map.empty ++ h)),
        version = packageVersion \<rparr>)"

section \<open>Request utilities (utils.ts)\<close>

fun sanitizeErrorMessage :: "unknown \<Rightarrow> js_error + string" where
  "sanitizeErrorMessage (ErrorInstance (AxiosError msg (Some status) req)) =
     Inr (''Server responded with status '' @ show_num status @ '': '' @ msg)"
| "sanitizeErrorMessage (ErrorInstance (AxiosError msg None True)) =
     Inr (''No response received: '' @ msg)"
| "sanitizeErrorMessage (ErrorInstance (AxiosError msg None False)) = Inr msg"
| "sanitizeErrorMessage (ErrorInstance (Error msg)) = Inr msg"
| "sanitizeErrorMessage (NonError form) = js_String form"

text \<open>
  Strings are lists of 8-bit characters. The characters that the regular expression
  \<open>\s\<close> matches and that \<open>trim\<close> strips, in that range: tab, line feed, vertical tab,
  form feed, carriage return, space and no-break space.
\<close>

definition is_space :: "char \<Rightarrow> bool" where
  "is_space c \<longleftrightarrow>
     c \<in> set [CHR 0x09, CHR 0x0A, CHR 0x0B, CHR 0x0C, CHR 0x0D, CHR '' '', CHR 0xA0]"

text \<open>
  \<open>s.replace(/\s+/g, " ")\<close>: scanning from the left, every maximal run of whitespace
  becomes one space.
\<close>

function replace_whitespace_runs :: "string \<Rightarrow> string" where
  "replace_whitespace_runs [] = []"
| "replace_whitespace_runs (c # cs) =
     (if is_space c then CHR '' '' # replace_whitespace_runs (dropWhile is_space cs)
      else c # replace_whitespace_runs cs)"
  by pat_completeness auto
termination
  by (relation "measure length") (auto simp: le_imp_less_Suc length_dropWhile_le)

definition trim :: "string \<Rightarrow> string" where
  "trim s = rev (dropWhile is_space (rev (dropWhile is_space s)))"

definition formatGraphQLQuery :: "string \<Rightarrow> string" where
  "formatGraphQLQuery query = trim (replace_whitespace_runs query)"

text \<open>
  The document that the parser of the graphql library returns, reduced to the nodes
  that the server inspects: the definitions with their kind and operation type, and the
  selection sets. A field has an optional alias, a name and a selection set. Arguments,
  directives, variable definitions and type-system definitions hold no field node.
\<close>

datatype OperationTypeNode = QUERY | MUTATION | SUBSCRIPTION

datatype selection_node =
    Field "string option" string "selection_node list"
  | FragmentSpread string
  | InlineFragment "selection_node list"

datatype definition_node =
    OperationDefinition OperationTypeNode "string option" "selection_node list"
  | FragmentDefinition string "selection_node list"
  | TypeSystemDefinition

type_synonym document = "definition_node list"

text \<open>
  \<open>visit(document, { Field(_) { ... } })\<close>: the traversal of the library enters every
  node of the document in document order and runs the callback on each field node; the
  callback returns nothing, so the traversal goes on into the field's own selection set.
  The callback's effect on the enclosing variables is the state transformer \<open>f\<close>.
\<close>

fun visit_selection :: "('s \<Rightarrow> 's) \<Rightarrow> selection_node \<Rightarrow> 's \<Rightarrow> 's" where
  "visit_selection f (Field alias name sels) s = fold (visit_selection f) sels (f s)"
| "visit_selection f (FragmentSpread name) s = s"
| "visit_selection f (InlineFragment sels) s = fold (visit_selection f) sels s"

fun visit_definition :: "('s \<Rightarrow> 's) \<Rightarrow> definition_node \<Rightarrow> 's \<Rightarrow> 's" where
  "visit_definition f (OperationDefinition ty name sels) s = fold (visit_selection f) sels s"
| "visit_definition f (FragmentDefinition name sels) s = fold (visit_selection f) sels s"
| "visit_definition f TypeSystemDefinition s = s"

definition visit :: "document \<Rightarrow> ('s \<Rightarrow> 's) \<Rightarrow> 's \<Rightarrow> 's" where
  "visit doc f s = fold (visit_definition f) doc s"

text \<open>JSON values (number literals as integers).\<close>

datatype json =
    JNull | JBool bool | JNumber int | JString string
  | JArray "json list" | JObject "(string \<times> json) list"

text \<open>The call \<open>axios.post(url, {query, variables}, {headers, timeout})\<close>.\<close>

record http_request =
  req_url :: string
  req_query :: string
  req_variables :: "json option"
  req_headers :: "string \<rightharpoonup> string"
  req_timeout :: jsnum

text \<open>
  The response of an endpoint: \<open>response.data\<close> with its fields \<open>data\<close> and \<open>errors\<close>
  (\<open>None\<close>: absent or \<open>null\<close>); an entry of \<open>errors\<close> is an object with a \<open>message\<close>.
\<close>

record response_error =
  message :: string

record response_body =
  body_data :: "json option"
  body_errors :: "response_error list option"

record http_response =
  resp_status :: jsnum
  resp_data :: response_body

text \<open>
  What the server calls and does not define: the parser of the graphql library (\<open>Inl\<close>:
  it raises a \<open>GraphQLError\<close> with that message), \<open>JSON.parse\<close> (\<open>Inl\<close>: it raises a
  \<open>SyntaxError\<close> with that message), \<open>JSON.stringify(_, null, 2)\<close> on the response's
  data and on the default headers, \<open>axios.post\<close> (\<open>Inl\<close>: the promise is rejected with
  that error) and the two readings of \<open>Date.now()\<close> around the request.
\<close>

record externals =
  graphql_parse :: "string \<Rightarrow> string + document"
  JSON_parse :: "string \<Rightarrow> string + json"
  JSON_stringify :: "json option \<Rightarrow> string"
  JSON_stringify_headers :: "(string \<rightharpoonup> string) \<Rightarrow> string"
  axios_post :: "http_request \<Rightarrow> js_error + http_response"
  Date_now_before :: int
  Date_now_after :: int

text \<open>The loop of \<open>isMutation\<close> over \<open>document.definitions\<close>, with its early return.\<close>

fun has_mutation_definition :: "definition_node list \<Rightarrow> bool" where
  "has_mutation_definition [] = False"
| "has_mutation_definition (d # ds) =
     (case d of
        OperationDefinition MUTATION name sels \<Rightarrow> True
      | _ \<Rightarrow> has_mutation_definition ds)"

definition isMutation :: "externals \<Rightarrow> string \<Rightarrow> bool" where
  "isMutation ext query =
     (case graphql_parse ext query of
        Inr doc \<Rightarrow> has_mutation_definition doc
      | Inl e \<Rightarrow> False)"

text \<open>
  The counter of \<open>calculateQueryComplexity\<close> starts at 0 and grows by one for each field
  node. A document is parsed from a string, whose length is below \<open>2^53\<close>, and a field
  node takes at least one character, so every value of the counter is a double and each
  increment is exact: the counter is a natural number. The sentinel
  \<open>MAX_QUERY_COMPLEXITY + 1\<close> is a sum of doubles.
\<close>

definition calculateQueryComplexity :: "externals \<Rightarrow> Config \<Rightarrow> string \<Rightarrow> jsnum" where
  "calculateQueryComplexity ext cfg query =
     (case graphql_parse ext query of
        Inr doc \<Rightarrow> Num (int (visit doc (\<lambda>complexity. complexity + 1) (0::nat)))
      | Inl e \<Rightarrow> js_plus (maxQueryComplexity cfg) (Num 1))"

text \<open>A parameter with a default value: the default is taken when the argument is absent.\<close>

definition default_arg :: "'a option \<Rightarrow> 'a \<Rightarrow> 'a" where
  "default_arg a d = (case a of None \<Rightarrow> d | Some v \<Rightarrow> v)"

text \<open>
  \<open>executeGraphQLQuery\<close> returns the response, or the error it raises, together with the
  requests it has issued. A value \<open>{...a, ...b}\<close> is \<open>a ++ b\<close>.
\<close>

definition executeGraphQLQuery ::
  "externals \<Rightarrow> Config \<Rightarrow> string option \<Rightarrow> string \<Rightarrow> json option
     \<Rightarrow> (string \<rightharpoonup> string) option \<Rightarrow> jsnum option
     \<Rightarrow> (js_error + http_response) \<times> http_request list" where
  "executeGraphQLQuery ext cfg endpoint_arg query variables headers_arg timeout_arg =
     (let endpoint' = default_arg endpoint_arg (endpoint cfg);
          headers' = default_arg headers_arg Map.empty;
          timeout' = default_arg timeout_arg (timeout cfg);
          decoded =
            (case variables of
               Some (JString s) \<Rightarrow>
                 (case JSON_parse ext s of Inl m \<Rightarrow> Inl (Error m) | Inr v \<Rightarrow> Inr (Some v))
             | _ \<Rightarrow> Inr variables)
      in case decoded of
           Inl e \<Rightarrow> (Inl e, [])
         | Inr processedVariables \<Rightarrow>
             (let request =
                \<lparr> req_url = endpoint',
                  req_query = query,
                  req_variables = processedVariables,
                  req_headers =
                    [''Content-Type'' \<mapsto> ''application/json'', ''Accept'' \<mapsto> ''application/json'']
                      ++ headers cfg ++ headers',
                  req_timeout = timeout' \<rparr>
              in (axios_post ext request, [request])))"

section \<open>The handler of the tool graphql_query (index.ts)\<close>

text \<open>
  A tool result: the text blocks of \<open>content\<close> (each of type \<open>text\<close>) and the flag
  \<open>isError\<close> (\<open>None\<close>: the field is absent).
\<close>

datatype content_block = TextContent string

record tool_result =
  content :: "content_block list"
  isError :: "bool option"

definition error_result :: "string \<Rightarrow> tool_result" where
  "error_result msg = \<lparr> content = [TextContent msg], isError = Some True \<rparr>"

text \<open>\<open>array.join(sep)\<close>.\<close>

fun join :: "string \<Rightarrow> string list \<Rightarrow> string" where
  "join sep [] = []"
| "join sep [x] = x"
| "join sep (x # y # ys) = x @ sep @ join sep (y # ys)"

text \<open>
  The body of the \<open>try\<close> block of \<open>handleGraphQLQuery\<close>, with the default values of the
  parameters already taken: the result it returns or the error it raises, together with
  the HTTP requests issued on the way.
\<close>

definition handleGraphQLQuery_try ::
  "externals \<Rightarrow> Config \<Rightarrow> string \<Rightarrow> json option \<Rightarrow> string \<Rightarrow> (string \<rightharpoonup> string)
     \<Rightarrow> jsnum \<Rightarrow> bool \<Rightarrow> (js_error + tool_result) \<times> http_request list" where
  "handleGraphQLQuery_try ext cfg query variables endpoint' headers' timeout' allowMutations =
     (case graphql_parse ext query of
        Inl m \<Rightarrow> (Inl (Error m), [])
      | Inr parsed \<Rightarrow>
          if \<not> allowMutations \<and> isMutation ext query then
            (Inr (error_result
               ''Mutation operations are not allowed unless explicitly enabled with allowMutations=true''),
             [])
          else
            (let queryComplexity = calculateQueryComplexity ext cfg query in
             if js_gt queryComplexity (maxQueryComplexity cfg) then
               (Inr (error_result
                  (''Query complexity ('' @ show_num queryComplexity
                     @ '') exceeds maximum allowed ('' @ show_num (maxQueryComplexity cfg) @ '')'')),
                [])
             else
               (case (case variables of
                        Some (JString s) \<Rightarrow>
                          (case JSON_parse ext s of Inl m \<Rightarrow> Inl m | Inr v \<Rightarrow> Inr (Some v))
                      | _ \<Rightarrow> Inr variables) of
                  Inl m \<Rightarrow>
                    (Inr (error_result (''Failed to parse variables as JSON: '' @ m)), [])
                | Inr processedVariables \<Rightarrow>
                    (case executeGraphQLQuery ext cfg (Some endpoint') query processedVariables
                            (Some headers') (Some timeout') of
                       (Inl e, sent) \<Rightarrow> (Inl e, sent)
                     | (Inr response, sent) \<Rightarrow>
                         (case body_errors (resp_data response) of
                            Some errors \<Rightarrow>
                              (Inr (error_result
                                 (''GraphQL server returned errors: ''
                                    @ join '', '' (map message errors))),
                               sent)
                          | None \<Rightarrow>
                              (let executionTime = Date_now_after ext - Date_now_before ext;
                                   formattedQuery = formatGraphQLQuery query;
                                   formattedData = JSON_stringify ext (body_data (resp_data response));
                                   hasDefaultHeaders = (dom (headers cfg) \<noteq> {})
                               in (Inr \<lparr> content =
                                           [TextContent (''Query executed successfully in ''
                                              @ show_int executionTime @ ''ms at '' @ endpoint')]
                                           @ (if hasDefaultHeaders then
                                                [TextContent (''Using default headers: ''
                                                   @ JSON_stringify_headers ext (headers cfg))]
                                              else [])
                                           @ [TextContent ([CHR 0x0A] @ ''Query:'' @ [CHR 0x0A]
                                                @ ''```graphql'' @ [CHR 0x0A] @ formattedQuery
                                                @ [CHR 0x0A] @ ''```''),
                                              TextContent ([CHR 0x0A] @ ''Result:'' @ [CHR 0x0A]
                                                @ ''```json'' @ [CHR 0x0A] @ formattedData
                                                @ [CHR 0x0A] @ ''```'')],
                                         isError = None \<rparr>,
                                   sent)))))))"

text \<open>
  \<open>handleGraphQLQuery\<close>: the \<open>catch\<close> clause turns an error raised in the \<open>try\<close> block
  into an error result. An error raised by the \<open>catch\<close> clause itself would reach the
  caller: \<open>Inl\<close>.
\<close>

definition handleGraphQLQuery ::
  "externals \<Rightarrow> Config \<Rightarrow> string \<Rightarrow> json option \<Rightarrow> string option
     \<Rightarrow> (string \<rightharpoonup> string) option \<Rightarrow> jsnum option \<Rightarrow> bool option
     \<Rightarrow> (js_error + tool_result) \<times> http_request list" where
  "handleGraphQLQuery ext cfg query variables endpoint_arg headers_arg timeout_arg allow_arg =
     (case handleGraphQLQuery_try ext cfg query variables
             (default_arg endpoint_arg (endpoint cfg))
             (default_arg headers_arg Map.empty)
             (default_arg timeout_arg (timeout cfg))
             (default_arg allow_arg False) of
        (Inr result, sent) \<Rightarrow> (Inr result, sent)
      | (Inl error, sent) \<Rightarrow>
          (case sanitizeErrorMessage (ErrorInstance error) of
             Inl raised \<Rightarrow> (Inl raised, sent)
           | Inr errorMessage \<Rightarrow>
               (Inr (error_result (''Error executing GraphQL query: '' @ errorMessage)), sent)))"

section \<open>Notions of the specification\<close>

text \<open>
  Stated from the specification, to be compared with \<open>calculateQueryComplexity\<close>: the
  field-selection nodes of a document, nested fields and the fields of fragments
  included, each node once.
\<close>

fun selection_field_nodes :: "selection_node \<Rightarrow> selection_node list" where
  "selection_field_nodes (Field alias name sels) =
     Field alias name sels # concat (map selection_field_nodes sels)"
| "selection_field_nodes (FragmentSpread name) = []"
| "selection_field_nodes (InlineFragment sels) = concat (map selection_field_nodes sels)"

fun definition_field_nodes :: "definition_node \<Rightarrow> selection_node list" where
  "definition_field_nodes (OperationDefinition ty name sels) =
     concat (map selection_field_nodes sels)"
| "definition_field_nodes (FragmentDefinition name sels) =
     concat (map selection_field_nodes sels)"
| "definition_field_nodes TypeSystemDefinition = []"

definition field_selection_nodes :: "document \<Rightarrow> selection_node list" where
  "field_selection_nodes doc = concat (map definition_field_nodes doc)"

text \<open>
  A string in which every whitespace character is a space and is not followed by
  another whitespace character.
\<close>

fun single_spaced :: "string \<Rightarrow> bool" where
  "single_spaced [] = True"
| "single_spaced [c] = (is_space c \<longrightarrow> c = CHR '' '')"
| "single_spaced (c # d # cs) =
     ((is_space c \<longrightarrow> c = CHR '' '' \<and> \<not> is_space d) \<and> single_spaced (d # cs))"

section \<open>Sample inputs\<close>

text \<open>
  A parser that knows three query texts and rejects every other text, an endpoint that
  answers every request with status 200 and one GraphQL error, another that answers with
  three errors, and a configuration with a ceiling of two fields and two default headers.
\<close>

definition sample_parse :: "string \<Rightarrow> string + document" where
  "sample_parse q =
     (if q = ''mutation { a { b { c } } }'' then
        Inr [OperationDefinition MUTATION None
               [Field None ''a'' [Field None ''b'' [Field None ''c'' []]]]]
      else if q = ''{ a { b { c } } }'' then
        Inr [OperationDefinition QUERY None
               [Field None ''a'' [Field None ''b'' [Field None ''c'' []]]]]
      else if q = ''{ a { b } }'' then
        Inr [OperationDefinition QUERY None [Field None ''a'' [Field None ''b'' []]]]
      else Inl ''Syntax Error: Expected Name, found <EOF>.'')"

definition sample_response :: http_response where
  "sample_response =
     \<lparr> resp_status = Num 200,
       resp_data = \<lparr> body_data = None,
                     body_errors = Some [\<lparr> message = ''field X not found'' \<rparr>] \<rparr> \<rparr>"

definition sample_externals :: externals where
  "sample_externals =
     \<lparr> graphql_parse = sample_parse,
       JSON_parse = (\<lambda>s. Inl ''Unexpected end of JSON input''),
       JSON_stringify = (\<lambda>v. ''null''),
       JSON_stringify_headers = (\<lambda>h. ''{}''),
       axios_post = (\<lambda>request. Inr sample_response),
       Date_now_before = 1000,
       Date_now_after = 1042 \<rparr>"

definition sample_response_three_errors :: http_response where
  "sample_response_three_errors =
     \<lparr> resp_status = Num 200,
       resp_data =
         \<lparr> body_data = None,
           body_errors = Some [\<lparr> message = ''field X not found'' \<rparr>,
                               \<lparr> message = ''field Y not found'' \<rparr>,
                               \<lparr> message = ''unauthorized'' \<rparr>] \<rparr> \<rparr>"

definition sample_externals_three_errors :: externals where
  "sample_externals_three_errors =
     sample_externals \<lparr> axios_post := (\<lambda>request. Inr sample_response_three_errors) \<rparr>"

definition sample_config :: Config where
  "sample_config =
     \<lparr> endpoint = ''http://localhost:4000/graphql'',
       maxQueryComplexity = Num 2,
       timeout = Num 30000,
       headers = [''Authorization'' \<mapsto> ''Bearer default'', ''X-Env'' \<mapsto> ''default''],
       version = ''1.0.0'' \<rparr>"

definition no_flags :: cli_flags where
  "no_flags = \<lparr> flag_endpoint = None, flag_headers = None, flag_timeout = None,
                flag_maxComplexity = None \<rparr>"

definition no_env :: process_env where
  "no_env = \<lparr> ENDPOINT = None, TIMEOUT = None, MAX_DEPTH = None \<rparr>"

text \<open>
  The request that the handler builds for the query \<open>{ a { b } }\<close> when no other
  argument is given.
\<close>

definition sample_request :: http_request where
  "sample_request =
     \<lparr> req_url = ''http://localhost:4000/graphql'',
       req_query = ''{ a { b } }'',
       req_variables = None,
       req_headers =
         [''Content-Type'' \<mapsto> ''application/json'', ''Accept'' \<mapsto> ''application/json'']
           ++ [''Authorization'' \<mapsto> ''Bearer default'', ''X-Env'' \<mapsto> ''default'']
           ++ Map.empty,
       req_timeout = Num 30000 \<rparr>"

section \<open>The mutation gate\<close>

lemma has_mutation_definition_iff:
  "has_mutation_definition doc \<longleftrightarrow>
     (\<exists>name sels. OperationDefinition MUTATION name sels \<in> set doc)"
proof (induction doc)
  case Nil
  then show ?case by simp
next
  case (Cons d ds)
  then show ?case
    by (auto split: definition_node.splits OperationTypeNode.splits)
qed

text \<open>
  Claim C1. When the parser accepts the query and the document has a top-level operation
  definition of mutation type, and \<open>allowMutations\<close> is absent or false, the handler
  returns the result with \<open>isError\<close> true and the one text ``Mutation operations are not
  allowed unless explicitly enabled with allowMutations=true'', and it has issued no
  HTTP request.
\<close>

theorem mutation_gate:
  assumes "graphql_parse ext query = Inr doc"
    and "OperationDefinition MUTATION name sels \<in> set doc"
    and "allowMutations = None \<or> allowMutations = Some False"
  shows "handleGraphQLQuery ext cfg query variables endpoint_arg headers_arg timeout_arg allowMutations =
     (Inr \<lparr> content = [TextContent
              ''Mutation operations are not allowed unless explicitly enabled with allowMutations=true''],
            isError = Some True \<rparr>, [])"
proof -
  have m: "isMutation ext query"
    using assms(1,2) by (auto simp: isMutation_def has_mutation_definition_iff)
  have a: "\<not> default_arg allowMutations False"
    using assms(3) by (auto simp: default_arg_def)
  show ?thesis
    using assms(1) m a
    by (simp add: handleGraphQLQuery_def handleGraphQLQuery_try_def error_result_def)
qed

theorem mutation_gate_witness:
  "handleGraphQLQuery sample_externals sample_config ''mutation { a { b { c } } }'' None None None None None =
     (Inr \<lparr> content = [TextContent
              ''Mutation operations are not allowed unless explicitly enabled with allowMutations=true''],
            isError = Some True \<rparr>, [])"
proof -
  have p: "graphql_parse sample_externals ''mutation { a { b { c } } }'' =
    Inr [OperationDefinition MUTATION None [Field None ''a'' [Field None ''b'' [Field None ''c'' []]]]]"
    by (simp add: sample_externals_def sample_parse_def)
  show ?thesis
    by (rule mutation_gate [OF p]) simp_all
qed

section \<open>Syntax errors and the catch clause\<close>

text \<open>
  Claim C5. When the parser rejects the query with a diagnostic, the sanitized form of
  that error is the diagnostic itself, the handler returns the result with \<open>isError\<close>
  true and the text ``Error executing GraphQL query: '' followed by it, and no HTTP
  request has been issued. Whatever the arguments, the handler returns a result: no
  error reaches its caller.
\<close>

theorem syntax_error:
  "(graphql_parse ext query = Inl diagnostic \<longrightarrow>
      sanitizeErrorMessage (ErrorInstance (Error diagnostic)) = Inr diagnostic
      \<and> handleGraphQLQuery ext cfg query variables endpoint_arg headers_arg timeout_arg allowMutations =
          (Inr \<lparr> content = [TextContent (''Error executing GraphQL query: '' @ diagnostic)],
                 isError = Some True \<rparr>, []))
   \<and> (\<exists>result. fst (handleGraphQLQuery ext cfg query variables endpoint_arg headers_arg timeout_arg
         allowMutations) = Inr result)"
proof -
  have s: "\<exists>m. sanitizeErrorMessage (ErrorInstance e) = Inr m" for e
    by (cases "ErrorInstance e" rule: sanitizeErrorMessage.cases) auto
  have "\<exists>result. fst (handleGraphQLQuery ext cfg query variables endpoint_arg headers_arg timeout_arg
         allowMutations) = Inr result"
  proof -
    obtain outcome sent where t: "handleGraphQLQuery_try ext cfg query variables
        (default_arg endpoint_arg (endpoint cfg)) (default_arg headers_arg Map.empty)
        (default_arg timeout_arg (timeout cfg)) (default_arg allowMutations False) = (outcome, sent)"
      by (cases "handleGraphQLQuery_try ext cfg query variables
        (default_arg endpoint_arg (endpoint cfg)) (default_arg headers_arg Map.empty)
        (default_arg timeout_arg (timeout cfg)) (default_arg allowMutations False)") auto
    show ?thesis
    proof (cases outcome)
      case (Inl e)
      obtain m where "sanitizeErrorMessage (ErrorInstance e) = Inr m" using s by blast
      with t Inl show ?thesis by (simp add: handleGraphQLQuery_def)
    next
      case (Inr r)
      with t show ?thesis by (simp add: handleGraphQLQuery_def)
    qed
  qed
  then show ?thesis
    by (auto simp: handleGraphQLQuery_def handleGraphQLQuery_try_def error_result_def)
qed

theorem syntax_error_witness:
  "graphql_parse sample_externals ''{'' = Inl ''Syntax Error: Expected Name, found <EOF>.''
   \<and> handleGraphQLQuery sample_externals sample_config ''{'' None None None None None =
          (Inr \<lparr> content = [TextContent
             ''Error executing GraphQL query: Syntax Error: Expected Name, found <EOF>.''],
                 isError = Some True \<rparr>, [])"
proof -
  have p: "graphql_parse sample_externals ''{'' = Inl ''Syntax Error: Expected Name, found <EOF>.''"
    by (simp add: sample_externals_def sample_parse_def)
  show ?thesis
    using p syntax_error [of sample_externals "''{''" "''Syntax Error: Expected Name, found <EOF>.''"
        sample_config None None None None None]
    by simp
qed

section \<open>Normalising the query text\<close>

lemma is_space_space: "is_space (CHR '' '')"
  by (simp add: is_space_def)

lemma replace_hd: "xs \<noteq> [] \<Longrightarrow> \<not> is_space (hd xs) \<Longrightarrow> replace_whitespace_runs xs \<noteq> [] \<and> hd (replace_whitespace_runs xs) = hd xs"
  by (cases xs) auto

lemma single_spaced_Cons:
  "single_spaced (c # xs) \<longleftrightarrow> (is_space c \<longrightarrow> c = CHR '' '' \<and> (xs \<noteq> [] \<longrightarrow> \<not> is_space (hd xs))) \<and> single_spaced xs"
  by (cases xs) auto

lemma dropWhile_hd: "dropWhile P xs \<noteq> [] \<Longrightarrow> \<not> P (hd (dropWhile P xs))"
  by (simp add: hd_dropWhile)

lemma single_spaced_replace: "single_spaced (replace_whitespace_runs xs)"
proof (induction xs rule: replace_whitespace_runs.induct)
  case 1
  then show ?case by simp
next
  case (2 c cs)
  show ?case
  proof (cases "is_space c")
    case True
    let ?r = "dropWhile is_space cs"
    have ih: "single_spaced (replace_whitespace_runs ?r)" using 2 True by simp
    have "replace_whitespace_runs ?r \<noteq> [] \<Longrightarrow> \<not> is_space (hd (replace_whitespace_runs ?r))"
    proof -
      assume ne: "replace_whitespace_runs ?r \<noteq> []"
      have "?r \<noteq> []"
      proof
        assume "?r = []"
        then have "replace_whitespace_runs ?r = []" by (simp only: replace_whitespace_runs.simps)
        with ne show False by simp
      qed
      then have "\<not> is_space (hd ?r)" by (rule dropWhile_hd)
      with \<open>?r \<noteq> []\<close> show ?thesis using replace_hd by simp
    qed
    with ih True show ?thesis by (simp add: single_spaced_Cons)
  next
    case False
    with 2 show ?thesis by (simp add: single_spaced_Cons)
  qed
qed

lemma single_spaced_append_left: "single_spaced (xs @ ys) \<Longrightarrow> single_spaced xs"
  by (induction xs rule: single_spaced.induct) (auto simp: single_spaced_Cons)

lemma single_spaced_dropWhile: "single_spaced xs \<Longrightarrow> single_spaced (dropWhile P xs)"
  by (induction xs) (auto simp: single_spaced_Cons)

lemma trim_prefix: "dropWhile is_space s = trim s @ rev (takeWhile is_space (rev (dropWhile is_space s)))"
  unfolding trim_def by (metis rev_append rev_rev_ident takeWhile_dropWhile_id)

lemma single_spaced_trim: "single_spaced s \<Longrightarrow> single_spaced (trim s)"
  using single_spaced_append_left [of "trim s"] trim_prefix [of s] single_spaced_dropWhile [of s is_space]
  by metis

lemma trim_ends: "trim s \<noteq> [] \<Longrightarrow> \<not> is_space (hd (trim s)) \<and> \<not> is_space (last (trim s))"
proof -
  assume ne: "trim s \<noteq> []"
  let ?t = "dropWhile is_space s"
  have d: "dropWhile is_space (rev ?t) \<noteq> []" using ne by (simp add: trim_def)
  have l: "last (trim s) = hd (dropWhile is_space (rev ?t))"
    using d by (simp add: trim_def last_rev)
  have "hd ?t = hd (trim s)" using trim_prefix [of s] ne by (metis hd_append2)
  moreover have "?t \<noteq> []" using trim_prefix [of s] ne by (metis append_is_Nil_conv)
  ultimately show ?thesis using l dropWhile_hd [of is_space s] dropWhile_hd [OF d] by simp
qed

lemma trim_id: "s = [] \<or> (\<not> is_space (hd s) \<and> \<not> is_space (last s)) \<Longrightarrow> trim s = s"
proof (cases s)
  case Nil then show ?thesis by (simp add: trim_def)
next
  case (Cons c cs)
  assume "s = [] \<or> (\<not> is_space (hd s) \<and> \<not> is_space (last s))"
  with Cons have h: "\<not> is_space c" and l: "\<not> is_space (last s)" by auto
  have "dropWhile is_space s = s" using h Cons by simp
  moreover have "dropWhile is_space (rev s) = rev s"
    using l Cons by (cases "rev s") (auto simp: hd_rev[symmetric] dest: arg_cong[where f=hd])
  ultimately show ?thesis by (simp add: trim_def)
qed

lemma replace_id: "single_spaced s \<Longrightarrow> replace_whitespace_runs s = s"
  by (induction s rule: single_spaced.induct) auto

lemma single_spaced_nth: "single_spaced s \<Longrightarrow> Suc i < length s \<Longrightarrow> \<not> (is_space (s ! i) \<and> is_space (s ! Suc i))"
proof (induction s arbitrary: i rule: single_spaced.induct)
  case (3 c d cs)
  then show ?case by (cases i) auto
qed auto

text \<open>
  Claim C10. \<open>formatGraphQLQuery\<close> is idempotent; its output has no two consecutive
  whitespace characters, and when it is not empty it neither starts nor ends with a
  whitespace character.
\<close>

theorem formatGraphQLQuery_idempotent:
  "formatGraphQLQuery (formatGraphQLQuery q) = formatGraphQLQuery q
   \<and> (\<forall>i. Suc i < length (formatGraphQLQuery q) \<longrightarrow>
         \<not> (is_space (formatGraphQLQuery q ! i) \<and> is_space (formatGraphQLQuery q ! Suc i)))
   \<and> (formatGraphQLQuery q \<noteq> [] \<longrightarrow>
         \<not> is_space (hd (formatGraphQLQuery q)) \<and> \<not> is_space (last (formatGraphQLQuery q)))"
proof -
  let ?r = "formatGraphQLQuery q"
  have ss: "single_spaced ?r"
    unfolding formatGraphQLQuery_def by (rule single_spaced_trim) (rule single_spaced_replace)
  have ends: "?r \<noteq> [] \<longrightarrow> \<not> is_space (hd ?r) \<and> \<not> is_space (last ?r)"
    unfolding formatGraphQLQuery_def using trim_ends by blast
  have "replace_whitespace_runs ?r = ?r" using ss by (rule replace_id)
  moreover have "trim ?r = ?r" using ends by (intro trim_id) blast
  ultimately have "formatGraphQLQuery ?r = ?r" by (simp add: formatGraphQLQuery_def)
  with ss ends show ?thesis using single_spaced_nth by blast
qed

theorem formatGraphQLQuery_idempotent_witness:
  "formatGraphQLQuery ''  { a   b }  '' = ''{ a b }''
   \<and> formatGraphQLQuery ''{ a b }'' = ''{ a b }''
   \<and> Suc 1 < length ''{ a b }''
   \<and> \<not> (is_space (''{ a b }'' ! 1) \<and> is_space (''{ a b }'' ! Suc 1))
   \<and> ''{ a b }'' \<noteq> []
   \<and> \<not> is_space (hd ''{ a b }'') \<and> \<not> is_space (last ''{ a b }'')"
proof -
  have e: "formatGraphQLQuery ''  { a   b }  '' = ''{ a b }''"
    by (simp add: formatGraphQLQuery_def trim_def is_space_def)
  show ?thesis
    using formatGraphQLQuery_idempotent [of "''  { a   b }  ''"] unfolding e
    by (simp add: is_space_def)
qed

section \<open>Counting fields\<close>

lemma funpow_twice: "(f ^^ m) ((f ^^ n) s) = (f ^^ (n + m)) s"
  by (metis add.commute comp_apply funpow_add)

lemma fold_visit_selection:
  assumes "\<And>x s. x \<in> set sels \<Longrightarrow> visit_selection f x s = (f ^^ length (selection_field_nodes x)) s"
  shows "fold (visit_selection f) sels s = (f ^^ length (concat (map selection_field_nodes sels))) s"
  using assms
proof (induction sels arbitrary: s)
  case Nil
  then show ?case by simp
next
  case (Cons x xs)
  have "fold (visit_selection f) (x # xs) s = fold (visit_selection f) xs (visit_selection f x s)"
    by simp
  also have "\<dots> = (f ^^ length (concat (map selection_field_nodes xs))) (visit_selection f x s)"
    using Cons by simp
  also have "\<dots> = (f ^^ length (concat (map selection_field_nodes xs)))
                     ((f ^^ length (selection_field_nodes x)) s)"
    using Cons.prems by simp
  also have "\<dots> = (f ^^ (length (selection_field_nodes x) + length (concat (map selection_field_nodes xs)))) s"
    by (rule funpow_twice)
  finally show ?case by simp
qed

lemma visit_selection_count:
  "visit_selection f x s = (f ^^ length (selection_field_nodes x)) s"
proof (induction f x s rule: visit_selection.induct)
  case (1 f al name sels s)
  then have "fold (visit_selection f) sels (f s) = (f ^^ length (concat (map selection_field_nodes sels))) (f s)"
    by (intro fold_visit_selection) simp
  then show ?case by (simp add: funpow_swap1)
next
  case (2 f name s)
  then show ?case by simp
next
  case (3 f sels s)
  then have "fold (visit_selection f) sels s = (f ^^ length (concat (map selection_field_nodes sels))) s"
    by (intro fold_visit_selection) simp
  then show ?case by simp
qed

lemma visit_definition_count:
  "visit_definition f d s = (f ^^ length (definition_field_nodes d)) s"
  by (cases d) (simp_all add: fold_visit_selection visit_selection_count)

lemma visit_count: "visit doc f s = (f ^^ length (field_selection_nodes doc)) s"
  unfolding visit_def field_selection_nodes_def
proof (induction doc arbitrary: s)
  case Nil
  then show ?case by simp
next
  case (Cons d ds)
  then show ?case by (simp add: visit_definition_count funpow_twice)
qed

lemma count_up: "((\<lambda>c. c + 1) ^^ n) (0::nat) = n"
  by (induction n) simp_all

lemma round_to_double_exact: "\<bar>n\<bar> \<le> 2 ^ 53 \<Longrightarrow> round_to_double n = n"
  by (simp add: round_to_double_def)

text \<open>
  At the ceiling \<open>2^53\<close> the sum with one is a tie between \<open>2^53\<close> and \<open>2^53 + 2\<close> and
  rounds to \<open>2^53\<close>: the sentinel then equals the ceiling.
\<close>

lemma js_plus_at_two_to_53:
  "js_plus (Num 9007199254740992) (Num 1) = Num 9007199254740992"
  by (simp add: round_to_double_def bit_length.simps Let_def)

text \<open>
  Claim C7. When the parser accepts the query, \<open>calculateQueryComplexity\<close> returns the
  number of field-selection nodes of the document: one for each field node, nested fields
  and the fields inside fragments included, with no weight for depth or arguments. When
  the parser rejects the query it returns the sum of the configured ceiling and one, as
  doubles add: \<open>NaN\<close> for the ceiling \<open>NaN\<close>, and the integer \<open>ceiling + 1\<close> for every
  ceiling of magnitude below \<open>2^53\<close>.
\<close>

theorem calculateQueryComplexity_counts_fields:
  "(graphql_parse ext query = Inr doc \<longrightarrow>
      calculateQueryComplexity ext cfg query = Num (int (length (field_selection_nodes doc))))
   \<and> (graphql_parse ext query = Inl diagnostic \<longrightarrow>
      calculateQueryComplexity ext cfg query = js_plus (maxQueryComplexity cfg) (Num 1)
      \<and> (maxQueryComplexity cfg = NaN \<longrightarrow> calculateQueryComplexity ext cfg query = NaN)
      \<and> (maxQueryComplexity cfg = Num ceiling \<longrightarrow> \<bar>ceiling\<bar> < 2 ^ 53 \<longrightarrow>
           calculateQueryComplexity ext cfg query = Num (ceiling + 1)))"
proof -
  have "round_to_double (ceiling + 1) = ceiling + 1" if "\<bar>ceiling\<bar> < 2 ^ 53"
    using that by (intro round_to_double_exact) linarith
  then show ?thesis
    by (auto simp: calculateQueryComplexity_def visit_count count_up)
qed

theorem calculateQueryComplexity_counts_fields_witness:
  "graphql_parse sample_externals ''{ a { b { c } } }'' =
     Inr [OperationDefinition QUERY None [Field None ''a'' [Field None ''b'' [Field None ''c'' []]]]]
   \<and> calculateQueryComplexity sample_externals sample_config ''{ a { b { c } } }'' = Num 3
   \<and> graphql_parse sample_externals ''{'' = Inl ''Syntax Error: Expected Name, found <EOF>.''
   \<and> maxQueryComplexity sample_config = Num 2
   \<and> \<bar>2 :: int\<bar> < 2 ^ 53
   \<and> calculateQueryComplexity sample_externals sample_config ''{'' = Num 3
   \<and> maxQueryComplexity (sample_config \<lparr> maxQueryComplexity := NaN \<rparr>) = NaN
   \<and> calculateQueryComplexity sample_externals (sample_config \<lparr> maxQueryComplexity := NaN \<rparr>) ''{''
       = NaN"
proof -
  have p: "graphql_parse sample_externals ''{ a { b { c } } }'' =
     Inr [OperationDefinition QUERY None [Field None ''a'' [Field None ''b'' [Field None ''c'' []]]]]"
    by (simp add: sample_externals_def sample_parse_def)
  have q: "graphql_parse sample_externals ''{'' = Inl ''Syntax Error: Expected Name, found <EOF>.''"
    by (simp add: sample_externals_def sample_parse_def)
  have m: "maxQueryComplexity sample_config = Num 2" by (simp add: sample_config_def)
  show ?thesis
    using p q m
      calculateQueryComplexity_counts_fields [where ext = sample_externals
        and query = "''{ a { b { c } } }''" and cfg = sample_config
        and doc = "[OperationDefinition QUERY None
                      [Field None ''a'' [Field None ''b'' [Field None ''c'' []]]]]"]
      calculateQueryComplexity_counts_fields [where ext = sample_externals
        and query = "''{''" and cfg = sample_config
        and diagnostic = "''Syntax Error: Expected Name, found <EOF>.''" and ceiling = 2]
      calculateQueryComplexity_counts_fields [where ext = sample_externals
        and query = "''{''" and cfg = "sample_config \<lparr> maxQueryComplexity := NaN \<rparr>"
        and diagnostic = "''Syntax Error: Expected Name, found <EOF>.''"]
    by (simp add: field_selection_nodes_def round_to_double_def)
qed

section \<open>The default configuration\<close>

text \<open>
  Claim C2, evaluated on the code at the input with no flag and no environment variable.
  The endpoint is \<open>http://localhost:4000/graphql\<close> and the default headers are empty,
  as the claim says. The timeout and the complexity ceiling are \<open>NaN\<close>, not 30000 and
  100: \<open>Number(undefined)\<close> is \<open>NaN\<close>, which is neither \<open>null\<close> nor \<open>undefined\<close>,
  so \<open>??\<close> never takes its right operand.
\<close>

theorem default_configuration:
  "timeout (new_Config to_number parse_headers packageVersion no_flags no_env) = NaN
   \<and> maxQueryComplexity (new_Config to_number parse_headers packageVersion no_flags no_env) = NaN
   \<and> endpoint (new_Config to_number parse_headers packageVersion no_flags no_env) =
       ''http://localhost:4000/graphql''
   \<and> headers (new_Config to_number parse_headers packageVersion no_flags no_env) = Map.empty"
  by (simp add: new_Config_def parseArguments_def no_flags_def no_env_def yargs_option_def
      nullish_def js_Number_def)


section \<open>The headers of a request\<close>

lemma executeGraphQLQuery_sent:
  "snd (executeGraphQLQuery ext cfg endpoint_arg query variables headers_arg timeout_arg) = [] \<or>
   snd (executeGraphQLQuery ext cfg endpoint_arg query variables headers_arg timeout_arg) =
     [\<lparr> req_url = default_arg endpoint_arg (endpoint cfg),
        req_query = query,
        req_variables =
          (case variables of
             Some (JString s) \<Rightarrow> (case JSON_parse ext s of Inl m \<Rightarrow> None | Inr v \<Rightarrow> Some v)
           | _ \<Rightarrow> variables),
        req_headers =
          [''Content-Type'' \<mapsto> ''application/json'', ''Accept'' \<mapsto> ''application/json'']
            ++ headers cfg ++ default_arg headers_arg Map.empty,
        req_timeout = default_arg timeout_arg (timeout cfg) \<rparr>]"
  by (simp add: executeGraphQLQuery_def Let_def split: option.splits json.splits sum.splits)

lemma executeGraphQLQuery_decoded:
  assumes "\<forall>s. variables = Some (JString s) \<longrightarrow> (\<exists>v. JSON_parse ext s = Inr v)"
  shows "length (snd (executeGraphQLQuery ext cfg endpoint_arg query variables headers_arg timeout_arg)) = 1"
  using assms
  by (auto simp: executeGraphQLQuery_def Let_def split: option.splits json.splits sum.splits)

text \<open>
  Claim C3. Every request that \<open>executeGraphQLQuery\<close> issues carries the headers formed
  from Content-Type and Accept, both \<open>application/json\<close>, then the configured default
  headers, then the headers of the request, a later set overriding an earlier one; for a
  key present in both the default headers and the request's headers the request's value
  is sent. A request is issued whenever the variables are not a string that
  \<open>JSON.parse\<close> rejects.
\<close>

theorem executeGraphQLQuery_headers:
  "(\<forall>request \<in> set (snd (executeGraphQLQuery ext cfg endpoint_arg query variables headers_arg
        timeout_arg)).
      req_headers request =
        [''Content-Type'' \<mapsto> ''application/json'', ''Accept'' \<mapsto> ''application/json'']
          ++ headers cfg ++ default_arg headers_arg Map.empty
      \<and> (\<forall>key \<in> dom (headers cfg) \<inter> dom (default_arg headers_arg Map.empty).
            req_headers request key = default_arg headers_arg Map.empty key))
   \<and> ((\<forall>s. variables = Some (JString s) \<longrightarrow> (\<exists>v. JSON_parse ext s = Inr v)) \<longrightarrow>
        length (snd (executeGraphQLQuery ext cfg endpoint_arg query variables headers_arg
          timeout_arg)) = 1)"
proof -
  have "req_headers request =
        [''Content-Type'' \<mapsto> ''application/json'', ''Accept'' \<mapsto> ''application/json'']
          ++ headers cfg ++ default_arg headers_arg Map.empty"
    if "request \<in> set (snd (executeGraphQLQuery ext cfg endpoint_arg query variables headers_arg
        timeout_arg))" for request
    using that executeGraphQLQuery_sent [of ext cfg endpoint_arg query variables headers_arg timeout_arg]
    by auto
  moreover have "(m1 ++ m2 ++ m3) key = m3 key" if "key \<in> dom m2 \<inter> dom m3"
    for m1 m2 m3 :: "string \<rightharpoonup> string" and key
    using that by (auto simp: map_add_def split: option.splits)
  ultimately show ?thesis
    using executeGraphQLQuery_decoded [of variables ext cfg endpoint_arg query headers_arg timeout_arg]
    by (metis (no_types, lifting))
qed

theorem executeGraphQLQuery_headers_witness:
  "length (snd (executeGraphQLQuery sample_externals sample_config None ''{ a { b } }'' None
        (Some [''X-Env'' \<mapsto> ''request'']) None)) = 1
   \<and> ''X-Env'' \<in> dom (headers sample_config) \<inter> dom [''X-Env'' \<mapsto> ''request'']
   \<and> req_headers (hd (snd (executeGraphQLQuery sample_externals sample_config None ''{ a { b } }'' None
        (Some [''X-Env'' \<mapsto> ''request'']) None))) ''X-Env'' = Some ''request''
   \<and> req_headers (hd (snd (executeGraphQLQuery sample_externals sample_config None ''{ a { b } }'' None
        (Some [''X-Env'' \<mapsto> ''request'']) None))) ''Authorization'' = Some ''Bearer default''"
proof -
  let ?sent = "snd (executeGraphQLQuery sample_externals sample_config None ''{ a { b } }'' None
        (Some [''X-Env'' \<mapsto> ''request'']) None)"
  note t = executeGraphQLQuery_headers [of sample_externals sample_config None "''{ a { b } }''" None
      "Some [''X-Env'' \<mapsto> ''request'']" None]
  from t have l: "length ?sent = 1" by simp
  then have "hd ?sent \<in> set ?sent" by (cases ?sent) auto
  with t have "req_headers (hd ?sent) =
        [''Content-Type'' \<mapsto> ''application/json'', ''Accept'' \<mapsto> ''application/json'']
          ++ headers sample_config ++ default_arg (Some [''X-Env'' \<mapsto> ''request'']) Map.empty"
    by blast
  with l show ?thesis by (simp add: sample_config_def default_arg_def)
qed

text \<open>
  Claim C4 fails as stated: a Content-Type among the request's headers replaces
  \<open>application/json\<close>.
\<close>

theorem protocol_headers_overridden:
  "length (snd (executeGraphQLQuery sample_externals sample_config None ''{ a { b } }'' None
        (Some [''Content-Type'' \<mapsto> ''text/plain'']) None)) = 1
   \<and> req_headers (hd (snd (executeGraphQLQuery sample_externals sample_config None ''{ a { b } }'' None
        (Some [''Content-Type'' \<mapsto> ''text/plain'']) None))) ''Content-Type'' = Some ''text/plain''
   \<and> req_headers (hd (snd (executeGraphQLQuery sample_externals sample_config None ''{ a { b } }'' None
        (Some [''Content-Type'' \<mapsto> ''text/plain'']) None))) ''Content-Type'' \<noteq> Some ''application/json''"
  by (simp add: executeGraphQLQuery_def Let_def default_arg_def sample_config_def)

text \<open>
  Claim C4, amended. In every request that \<open>executeGraphQLQuery\<close> issues, Content-Type
  and Accept each have the value of the request's headers when these contain the key,
  else the value of the configured default headers when those contain it, else
  \<open>application/json\<close>.
\<close>

theorem protocol_headers_default:
  "\<forall>request \<in> set (snd (executeGraphQLQuery ext cfg endpoint_arg query variables headers_arg
        timeout_arg)).
     \<forall>key \<in> {''Content-Type'', ''Accept''}.
       req_headers request key =
         (case default_arg headers_arg Map.empty key of
            Some v \<Rightarrow> Some v
          | None \<Rightarrow> (case headers cfg key of Some v \<Rightarrow> Some v | None \<Rightarrow> Some ''application/json''))"
proof
  fix request
  assume "request \<in> set (snd (executeGraphQLQuery ext cfg endpoint_arg query variables headers_arg
        timeout_arg))"
  then have "req_headers request =
        [''Content-Type'' \<mapsto> ''application/json'', ''Accept'' \<mapsto> ''application/json'']
          ++ headers cfg ++ default_arg headers_arg Map.empty"
    using executeGraphQLQuery_sent [of ext cfg endpoint_arg query variables headers_arg timeout_arg]
    by auto
  then show "\<forall>key \<in> {''Content-Type'', ''Accept''}.
       req_headers request key =
         (case default_arg headers_arg Map.empty key of
            Some v \<Rightarrow> Some v
          | None \<Rightarrow> (case headers cfg key of Some v \<Rightarrow> Some v | None \<Rightarrow> Some ''application/json''))"
    by (simp add: map_add_def split: option.splits)
qed

theorem protocol_headers_default_witness:
  "length (snd (executeGraphQLQuery sample_externals sample_config None ''{ a { b } }'' None
        (Some [''X-Env'' \<mapsto> ''request'']) None)) = 1
   \<and> req_headers (hd (snd (executeGraphQLQuery sample_externals sample_config None ''{ a { b } }'' None
        (Some [''X-Env'' \<mapsto> ''request'']) None))) ''Content-Type'' = Some ''application/json''
   \<and> req_headers (hd (snd (executeGraphQLQuery sample_externals sample_config None ''{ a { b } }'' None
        (Some [''X-Env'' \<mapsto> ''request'']) None))) ''Accept'' = Some ''application/json''"
proof -
  let ?sent = "snd (executeGraphQLQuery sample_externals sample_config None ''{ a { b } }'' None
        (Some [''X-Env'' \<mapsto> ''request'']) None)"
  have l: "length ?sent = 1" by (simp add: executeGraphQLQuery_def Let_def)
  then have "hd ?sent \<in> set ?sent" by (cases ?sent) auto
  with protocol_headers_default [of sample_externals sample_config None "''{ a { b } }''" None
      "Some [''X-Env'' \<mapsto> ''request'']" None]
  have "\<forall>key \<in> {''Content-Type'', ''Accept''}.
       req_headers (hd ?sent) key =
         (case default_arg (Some [''X-Env'' \<mapsto> ''request'']) Map.empty key of
            Some v \<Rightarrow> Some v
          | None \<Rightarrow> (case headers sample_config key of Some v \<Rightarrow> Some v | None \<Rightarrow> Some ''application/json''))"
    by blast
  with l show ?thesis by (simp add: sample_config_def default_arg_def)
qed

section \<open>Sanitizing an error\<close>

text \<open>
  Claim C9 fails as stated: on a value that is not an \<open>Error\<close> and has no string form,
  \<open>String\<close> raises and so does \<open>sanitizeErrorMessage\<close>.
\<close>

theorem sanitizeErrorMessage_raises:
  "sanitizeErrorMessage (NonError None) = Inl (Error ''Cannot convert object to primitive value'')"
  by simp

text \<open>
  Claim C9, amended. On every value other than a non-\<open>Error\<close> without a string form,
  \<open>sanitizeErrorMessage\<close> returns a string: for an \<open>AxiosError\<close> with a response,
  ``Server responded with status '', the status, a colon and the message; for an
  \<open>AxiosError\<close> with a request and no response, ``No response received: '' and the
  message; for any other \<open>Error\<close> its message; for any other value its string form.
\<close>

theorem sanitizeErrorMessage_cases:
  "(v \<noteq> NonError None \<longrightarrow> (\<exists>s. sanitizeErrorMessage v = Inr s))
   \<and> sanitizeErrorMessage (ErrorInstance (AxiosError msg (Some status) request_sent)) =
       Inr (''Server responded with status '' @ show_num status @ '': '' @ msg)
   \<and> sanitizeErrorMessage (ErrorInstance (AxiosError msg None True)) =
       Inr (''No response received: '' @ msg)
   \<and> sanitizeErrorMessage (ErrorInstance (AxiosError msg None False)) = Inr msg
   \<and> sanitizeErrorMessage (ErrorInstance (Error msg)) = Inr msg
   \<and> sanitizeErrorMessage (NonError (Some form)) = Inr form"
  by (cases v rule: sanitizeErrorMessage.cases) auto

theorem sanitizeErrorMessage_cases_witness:
  "ErrorInstance (AxiosError ''Request failed with status code 500'' (Some (Num 500)) True) \<noteq> NonError None
   \<and> sanitizeErrorMessage
        (ErrorInstance (AxiosError ''Request failed with status code 500'' (Some (Num 500)) True)) =
       Inr ''Server responded with status 500: Request failed with status code 500''"
  using sanitizeErrorMessage_cases
    [of "ErrorInstance (AxiosError ''Request failed with status code 500'' (Some (Num 500)) True)"
        "''Request failed with status code 500''" "Num 500" True]
  by (simp add: show_int_def show_nat.simps)


section \<open>The outcomes of the handler\<close>

lemma catch_clause:
  assumes "handleGraphQLQuery_try ext cfg query variables
        (default_arg endpoint_arg (endpoint cfg)) (default_arg headers_arg Map.empty)
        (default_arg timeout_arg (timeout cfg)) (default_arg allowMutations False) = (outcome, sent)"
  shows "(\<forall>result. outcome = Inr result \<longrightarrow>
            handleGraphQLQuery ext cfg query variables endpoint_arg headers_arg timeout_arg
              allowMutations = (Inr result, sent))
       \<and> (\<forall>e. outcome = Inl e \<longrightarrow>
            (\<exists>m. handleGraphQLQuery ext cfg query variables endpoint_arg headers_arg timeout_arg
              allowMutations = (Inr (error_result (''Error executing GraphQL query: '' @ m)), sent)))"
proof -
  have s: "\<exists>m. sanitizeErrorMessage (ErrorInstance e) = Inr m" for e
    by (cases "ErrorInstance e" rule: sanitizeErrorMessage.cases) auto
  show ?thesis
  proof (cases outcome)
    case (Inl e)
    obtain m where "sanitizeErrorMessage (ErrorInstance e) = Inr m" using s by blast
    with assms Inl have "handleGraphQLQuery ext cfg query variables endpoint_arg headers_arg
        timeout_arg allowMutations =
        (Inr (error_result (''Error executing GraphQL query: '' @ m)), sent)"
      by (simp add: handleGraphQLQuery_def)
    with Inl show ?thesis by blast
  next
    case (Inr r)
    with assms show ?thesis by (simp add: handleGraphQLQuery_def)
  qed
qed

lemma try_outcomes:
  assumes "graphql_parse ext query = Inr doc"
    and "\<not> js_gt (calculateQueryComplexity ext cfg query) (maxQueryComplexity cfg)"
  obtains
      (mutation)
        "handleGraphQLQuery_try ext cfg query variables ep hs t allow =
           (Inr (error_result
              ''Mutation operations are not allowed unless explicitly enabled with allowMutations=true''),
            [])"
    | (variables) m where
        "handleGraphQLQuery_try ext cfg query variables ep hs t allow =
           (Inr (error_result (''Failed to parse variables as JSON: '' @ m)), [])"
    | (raised) pv e sent where
        "executeGraphQLQuery ext cfg (Some ep) query pv (Some hs) (Some t) = (Inl e, sent)"
        "handleGraphQLQuery_try ext cfg query variables ep hs t allow = (Inl e, sent)"
    | (errors) pv response sent errors where
        "executeGraphQLQuery ext cfg (Some ep) query pv (Some hs) (Some t) = (Inr response, sent)"
        "body_errors (resp_data response) = Some errors"
        "handleGraphQLQuery_try ext cfg query variables ep hs t allow =
           (Inr (error_result (''GraphQL server returned errors: '' @ join '', '' (map message errors))),
            sent)"
    | (success) pv response sent result where
        "executeGraphQLQuery ext cfg (Some ep) query pv (Some hs) (Some t) = (Inr response, sent)"
        "body_errors (resp_data response) = None"
        "isError result = None"
        "handleGraphQLQuery_try ext cfg query variables ep hs t allow = (Inr result, sent)"
proof (cases "\<not> allow \<and> isMutation ext query")
  case True
  with assms(1) show ?thesis by (intro mutation) (simp add: handleGraphQLQuery_try_def)
next
  case False
  define decoded where "decoded =
    (case variables of
       Some (JString s) \<Rightarrow> (case JSON_parse ext s of Inl m \<Rightarrow> Inl m | Inr v \<Rightarrow> Inr (Some v))
     | _ \<Rightarrow> Inr variables)"
  show ?thesis
  proof (cases decoded)
    case (Inl m)
    with assms False have "handleGraphQLQuery_try ext cfg query variables ep hs t allow =
      (Inr (error_result (''Failed to parse variables as JSON: '' @ m)), [])"
      unfolding decoded_def by (auto simp: handleGraphQLQuery_try_def)
    then show ?thesis by (rule variables)
  next
    case (Inr pv)
    obtain r sent where x: "executeGraphQLQuery ext cfg (Some ep) query pv (Some hs) (Some t) = (r, sent)"
      by (cases "executeGraphQLQuery ext cfg (Some ep) query pv (Some hs) (Some t)") auto
    show ?thesis
    proof (cases r)
      case (Inl e)
      with assms False Inr x have "handleGraphQLQuery_try ext cfg query variables ep hs t allow = (Inl e, sent)"
        unfolding decoded_def by (auto simp: handleGraphQLQuery_try_def)
      with x Inl show ?thesis by (intro raised) simp_all
    next
      case r: (Inr response)
      show ?thesis
      proof (cases "body_errors (resp_data response)")
        case None
        with assms False Inr x r have "\<exists>result. isError result = None \<and>
            handleGraphQLQuery_try ext cfg query variables ep hs t allow = (Inr result, sent)"
          unfolding decoded_def by (auto simp: handleGraphQLQuery_try_def Let_def)
        then obtain result where "isError result = None"
            "handleGraphQLQuery_try ext cfg query variables ep hs t allow = (Inr result, sent)"
          by blast
        with x r None show ?thesis by (intro success) simp_all
      next
        case (Some errs)
        with assms False Inr x r have "handleGraphQLQuery_try ext cfg query variables ep hs t allow =
           (Inr (error_result (''GraphQL server returned errors: '' @ join '', '' (map message errs))),
            sent)"
          unfolding decoded_def by (auto simp: handleGraphQLQuery_try_def)
        with x r Some show ?thesis by (intro errors) simp_all
      qed
    qed
  qed
qed

lemma complexity_of_parsed:
  "graphql_parse ext query = Inr doc \<Longrightarrow>
     calculateQueryComplexity ext cfg query = Num (int (length (field_selection_nodes doc)))"
  by (simp add: calculateQueryComplexity_def visit_count count_up)

lemma executeGraphQLQuery_result:
  "executeGraphQLQuery ext cfg e q v h t = (r, [request]) \<Longrightarrow> r = axios_post ext request"
  by (auto simp: executeGraphQLQuery_def Let_def split: option.splits json.splits sum.splits)

lemma try_sent_nonempty:
  assumes "snd (handleGraphQLQuery_try ext cfg query variables ep hs t allow) \<noteq> []"
  shows "(\<exists>doc. graphql_parse ext query = Inr doc)
       \<and> \<not> js_gt (calculateQueryComplexity ext cfg query) (maxQueryComplexity cfg)"
proof (cases "graphql_parse ext query")
  case (Inl m)
  with assms show ?thesis by (simp add: handleGraphQLQuery_try_def)
next
  case (Inr doc)
  show ?thesis
  proof (cases "js_gt (calculateQueryComplexity ext cfg query) (maxQueryComplexity cfg)")
    case True
    with Inr assms show ?thesis by (simp add: handleGraphQLQuery_try_def split: if_splits)
  next
    case False
    with Inr show ?thesis by simp
  qed
qed

lemma not_complexity_message:
  assumes "graphql_parse ext query = Inr doc"
    and "\<not> js_gt (calculateQueryComplexity ext cfg query) (maxQueryComplexity cfg)"
  shows "fst (handleGraphQLQuery ext cfg query variables endpoint_arg headers_arg timeout_arg
             allowMutations) \<noteq>
       Inr (error_result (''Query complexity ('' @ a @ '') exceeds maximum allowed ('' @ b @ '')''))"
proof -
  let ?h = "handleGraphQLQuery ext cfg query variables endpoint_arg headers_arg timeout_arg
             allowMutations"
  from assms show ?thesis
  proof (cases rule: try_outcomes [where variables = variables
        and ep = "default_arg endpoint_arg (endpoint cfg)"
        and hs = "default_arg headers_arg Map.empty"
        and t = "default_arg timeout_arg (timeout cfg)"
        and allow = "default_arg allowMutations False"])
    case mutation
    from catch_clause [OF this] have "fst ?h = Inr (error_result
         ''Mutation operations are not allowed unless explicitly enabled with allowMutations=true'')"
      by simp
    then show ?thesis by (simp add: error_result_def)
  next
    case (variables m)
    from catch_clause [OF this]
    have "fst ?h = Inr (error_result (''Failed to parse variables as JSON: '' @ m))"
      by simp
    then show ?thesis by (simp add: error_result_def)
  next
    case (raised pv e sent)
    from catch_clause [OF raised(2)] obtain m where
      "fst ?h = Inr (error_result (''Error executing GraphQL query: '' @ m))"
      by auto
    then show ?thesis by (simp add: error_result_def)
  next
    case (errors pv response sent errs)
    from catch_clause [OF errors(3)]
    have "fst ?h = Inr (error_result
           (''GraphQL server returned errors: '' @ join '', '' (map message errs)))"
      by simp
    then show ?thesis by (simp add: error_result_def)
  next
    case (success pv response sent result)
    from catch_clause [OF success(4)] have "fst ?h = Inr result" by simp
    with success(3) show ?thesis by (auto simp: error_result_def)
  qed
qed

text \<open>
  Claim C6 fails as stated: a mutation whose field count exceeds the ceiling, with
  \<open>allowMutations\<close> absent, is answered by the mutation gate, which comes first.
\<close>

theorem gated_mutation_over_ceiling:
  "graphql_parse sample_externals ''mutation { a { b { c } } }'' =
     Inr [OperationDefinition MUTATION None [Field None ''a'' [Field None ''b'' [Field None ''c'' []]]]]
   \<and> calculateQueryComplexity sample_externals sample_config ''mutation { a { b { c } } }'' = Num 3
   \<and> maxQueryComplexity sample_config = Num 2
   \<and> fst (handleGraphQLQuery sample_externals sample_config ''mutation { a { b { c } } }''
        None None None None None) =
       Inr \<lparr> content = [TextContent
                ''Mutation operations are not allowed unless explicitly enabled with allowMutations=true''],
              isError = Some True \<rparr>
   \<and> fst (handleGraphQLQuery sample_externals sample_config ''mutation { a { b { c } } }''
        None None None None None) \<noteq>
       Inr \<lparr> content = [TextContent ''Query complexity (3) exceeds maximum allowed (2)''],
              isError = Some True \<rparr>"
  by (simp add: sample_externals_def sample_parse_def sample_config_def handleGraphQLQuery_def
      handleGraphQLQuery_try_def default_arg_def isMutation_def error_result_def
      calculateQueryComplexity_def visit_def)

text \<open>
  Claim C6, amended. For a query that the parser accepts and that passes the mutation
  gate (\<open>allowMutations\<close> is true, or the document has no mutation operation): when its
  field count exceeds the configured ceiling the handler returns the result with
  \<open>isError\<close> true and the text ``Query complexity (n) exceeds maximum allowed (max)'',
  and no HTTP request is issued. For any query that the parser accepts and whose count
  equals the ceiling, the handler's result is not a complexity error.
\<close>

theorem complexity_gate:
  assumes "graphql_parse ext query = Inr doc"
  shows
   "(allowMutations = Some True \<or> (\<forall>name sels. OperationDefinition MUTATION name sels \<notin> set doc) \<longrightarrow>
     js_gt (Num (int (length (field_selection_nodes doc)))) (maxQueryComplexity cfg) \<longrightarrow>
     handleGraphQLQuery ext cfg query variables endpoint_arg headers_arg timeout_arg allowMutations =
       (Inr \<lparr> content = [TextContent
                (''Query complexity ('' @ show_int (int (length (field_selection_nodes doc)))
                   @ '') exceeds maximum allowed ('' @ show_num (maxQueryComplexity cfg) @ '')'')],
              isError = Some True \<rparr>, []))
    \<and> (maxQueryComplexity cfg = Num (int (length (field_selection_nodes doc))) \<longrightarrow>
        (\<forall>count ceiling.
           fst (handleGraphQLQuery ext cfg query variables endpoint_arg headers_arg timeout_arg
             allowMutations) \<noteq>
           Inr \<lparr> content = [TextContent
                    (''Query complexity ('' @ count @ '') exceeds maximum allowed ('' @ ceiling @ '')'')],
                  isError = Some True \<rparr>))"
proof -
  note c = complexity_of_parsed [OF assms, of cfg]
  have first: "handleGraphQLQuery ext cfg query variables endpoint_arg headers_arg timeout_arg allowMutations =
       (Inr \<lparr> content = [TextContent
                (''Query complexity ('' @ show_int (int (length (field_selection_nodes doc)))
                   @ '') exceeds maximum allowed ('' @ show_num (maxQueryComplexity cfg) @ '')'')],
              isError = Some True \<rparr>, [])"
    if "allowMutations = Some True \<or> (\<forall>name sels. OperationDefinition MUTATION name sels \<notin> set doc)"
      and "js_gt (Num (int (length (field_selection_nodes doc)))) (maxQueryComplexity cfg)"
  proof -
    from that(1) assms have "default_arg allowMutations False \<or> \<not> isMutation ext query"
      by (auto simp: default_arg_def isMutation_def has_mutation_definition_iff)
    then show ?thesis
      using that(2) assms c
      by (auto simp: handleGraphQLQuery_def handleGraphQLQuery_try_def error_result_def)
  qed
  have second: "fst (handleGraphQLQuery ext cfg query variables endpoint_arg headers_arg timeout_arg
             allowMutations) \<noteq>
           Inr \<lparr> content = [TextContent
                    (''Query complexity ('' @ count @ '') exceeds maximum allowed ('' @ ceiling @ '')'')],
                  isError = Some True \<rparr>"
    if "maxQueryComplexity cfg = Num (int (length (field_selection_nodes doc)))" for count ceiling
  proof -
    have "\<not> js_gt (calculateQueryComplexity ext cfg query) (maxQueryComplexity cfg)"
      using that c by simp
    from not_complexity_message [OF assms this, of variables endpoint_arg headers_arg timeout_arg
        allowMutations count ceiling]
    show ?thesis by (simp add: error_result_def)
  qed
  from first second show ?thesis by blast
qed

theorem complexity_gate_witness:
  "graphql_parse sample_externals ''{ a { b { c } } }'' =
     Inr [OperationDefinition QUERY None [Field None ''a'' [Field None ''b'' [Field None ''c'' []]]]]
   \<and> js_gt (Num 3) (maxQueryComplexity sample_config)
   \<and> handleGraphQLQuery sample_externals sample_config ''{ a { b { c } } }'' None None None None None =
       (Inr \<lparr> content = [TextContent ''Query complexity (3) exceeds maximum allowed (2)''],
              isError = Some True \<rparr>, [])
   \<and> graphql_parse sample_externals ''{ a { b } }'' =
     Inr [OperationDefinition QUERY None [Field None ''a'' [Field None ''b'' []]]]
   \<and> maxQueryComplexity sample_config = Num 2
   \<and> fst (handleGraphQLQuery sample_externals sample_config ''{ a { b } }'' None None None None None) \<noteq>
       Inr \<lparr> content = [TextContent ''Query complexity (2) exceeds maximum allowed (2)''],
              isError = Some True \<rparr>"
proof -
  have p3: "graphql_parse sample_externals ''{ a { b { c } } }'' =
     Inr [OperationDefinition QUERY None [Field None ''a'' [Field None ''b'' [Field None ''c'' []]]]]"
    by (simp add: sample_externals_def sample_parse_def)
  have p2: "graphql_parse sample_externals ''{ a { b } }'' =
     Inr [OperationDefinition QUERY None [Field None ''a'' [Field None ''b'' []]]]"
    by (simp add: sample_externals_def sample_parse_def)
  have m: "maxQueryComplexity sample_config = Num 2" by (simp add: sample_config_def)
  have s3: "show_int 3 = ''3''" and s2: "show_int 2 = ''2''"
    by (simp_all add: show_int_def show_nat.simps)
  from complexity_gate [OF p3, of None sample_config None None None None]
  have a: "handleGraphQLQuery sample_externals sample_config ''{ a { b { c } } }'' None None None None None =
       (Inr \<lparr> content = [TextContent ''Query complexity (3) exceeds maximum allowed (2)''],
              isError = Some True \<rparr>, [])"
    by (simp add: field_selection_nodes_def m s3 s2)
  from complexity_gate [OF p2, of None sample_config None None None None]
  have "\<forall>count ceiling. fst (handleGraphQLQuery sample_externals sample_config ''{ a { b } }'' None None None None None) \<noteq>
       Inr \<lparr> content = [TextContent (''Query complexity ('' @ count @ '') exceeds maximum allowed ('' @ ceiling @ '')'')],
              isError = Some True \<rparr>"
    by (simp add: field_selection_nodes_def m)
  from this [rule_format, of "''2''" "''2''"]
  have b: "fst (handleGraphQLQuery sample_externals sample_config ''{ a { b } }'' None None None None None) \<noteq>
       Inr \<lparr> content = [TextContent ''Query complexity (2) exceeds maximum allowed (2)''],
              isError = Some True \<rparr>"
    by simp
  from p3 p2 m a b show ?thesis by simp
qed

text \<open>
  \<open>join\<close> puts the separator before every element but the first, and nothing else
  around the elements.
\<close>

lemma join_concat:
  "join sep xs = (case xs of [] \<Rightarrow> [] | x # ys \<Rightarrow> x @ concat (map (\<lambda>y. sep @ y) ys))"
  by (induction sep xs rule: join.induct) simp_all

lemma length_join:
  "length (join sep xs) = sum_list (map length xs) + (length xs - 1) * length sep"
  by (induction sep xs rule: join.induct) simp_all

text \<open>
  Claim C8. When the handler has issued a request and \<open>axios.post\<close> has answered it
  with a response whose body has an \<open>errors\<close> array, the handler returns the result with
  \<open>isError\<close> true and the text ``GraphQL server returned errors: '' followed by all the
  messages in their order, the first as it is and each later one after a comma and a
  space: nothing for an empty array, the message alone for a single error.
\<close>

theorem graphql_errors_reported:
  assumes "snd (handleGraphQLQuery ext cfg query variables endpoint_arg headers_arg timeout_arg
             allowMutations) = [request]"
    and "axios_post ext request = Inr response"
    and "body_errors (resp_data response) = Some errors"
  shows "fst (handleGraphQLQuery ext cfg query variables endpoint_arg headers_arg timeout_arg
             allowMutations) =
         Inr \<lparr> content = [TextContent
                  (''GraphQL server returned errors: ''
                     @ (case errors of
                          [] \<Rightarrow> []
                        | e # es \<Rightarrow> message e @ concat (map (\<lambda>x. '', '' @ message x) es)))],
                isError = Some True \<rparr>"
proof -
  have joined: "join '', '' (map message errors) =
      (case errors of [] \<Rightarrow> [] | e # es \<Rightarrow> message e @ concat (map (\<lambda>x. '', '' @ message x) es))"
    by (cases errors) (simp_all add: join_concat comp_def)
  let ?ep = "default_arg endpoint_arg (endpoint cfg)"
  let ?hs = "default_arg headers_arg Map.empty"
  let ?t = "default_arg timeout_arg (timeout cfg)"
  let ?body = "handleGraphQLQuery_try ext cfg query variables ?ep ?hs ?t (default_arg allowMutations False)"
  let ?h = "handleGraphQLQuery ext cfg query variables endpoint_arg headers_arg timeout_arg
             allowMutations"
  obtain outcome sent where t: "?body = (outcome, sent)" by (cases ?body) auto
  from catch_clause [OF t] have "snd ?h = sent" by (cases outcome) auto
  with assms(1) have sent: "sent = [request]" by simp
  with t have "snd ?body \<noteq> []" by simp
  from try_sent_nonempty [OF this] obtain doc where
    p: "graphql_parse ext query = Inr doc"
    and g: "\<not> js_gt (calculateQueryComplexity ext cfg query) (maxQueryComplexity cfg)"
    by blast
  from p g show ?thesis
  proof (cases rule: try_outcomes [where variables = variables and ep = ?ep and hs = ?hs
        and t = ?t and allow = "default_arg allowMutations False"])
    case mutation
    with t sent show ?thesis by simp
  next
    case (variables m)
    with t sent show ?thesis by simp
  next
    case (raised pv e sent')
    with t sent have "executeGraphQLQuery ext cfg (Some ?ep) query pv (Some ?hs) (Some ?t) =
        (Inl e, [request])"
      by simp
    from executeGraphQLQuery_result [OF this] assms(2) show ?thesis by simp
  next
    case (errors pv response' sent' errors')
    with t sent have x: "executeGraphQLQuery ext cfg (Some ?ep) query pv (Some ?hs) (Some ?t) =
        (Inr response', [request])"
      by simp
    from executeGraphQLQuery_result [OF x] assms(2) have "response' = response" by simp
    with errors(2) assms(3) have "errors' = errors" by simp
    with errors(3) catch_clause [OF errors(3)]
    have "fst ?h = Inr (error_result
        (''GraphQL server returned errors: '' @ join '', '' (map message errors)))"
      by simp
    then show ?thesis unfolding joined by (simp add: error_result_def)
  next
    case (success pv response' sent' result)
    with t sent have x: "executeGraphQLQuery ext cfg (Some ?ep) query pv (Some ?hs) (Some ?t) =
        (Inr response', [request])"
      by simp
    from executeGraphQLQuery_result [OF x] assms(2) have "response' = response" by simp
    with success(2) assms(3) show ?thesis by simp
  qed
qed

theorem graphql_errors_reported_witness:
  "snd (handleGraphQLQuery sample_externals sample_config ''{ a { b } }'' None None None None None) =
     [sample_request]
   \<and> axios_post sample_externals sample_request = Inr sample_response
   \<and> resp_status sample_response = Num 200
   \<and> body_errors (resp_data sample_response) = Some [\<lparr> message = ''field X not found'' \<rparr>]
   \<and> fst (handleGraphQLQuery sample_externals sample_config ''{ a { b } }'' None None None None None) =
       Inr \<lparr> content = [TextContent ''GraphQL server returned errors: field X not found''],
              isError = Some True \<rparr>
   \<and> snd (handleGraphQLQuery sample_externals_three_errors sample_config ''{ a { b } }''
        None None None None None) = [sample_request]
   \<and> axios_post sample_externals_three_errors sample_request = Inr sample_response_three_errors
   \<and> body_errors (resp_data sample_response_three_errors) =
       Some [\<lparr> message = ''field X not found'' \<rparr>, \<lparr> message = ''field Y not found'' \<rparr>,
             \<lparr> message = ''unauthorized'' \<rparr>]
   \<and> fst (handleGraphQLQuery sample_externals_three_errors sample_config ''{ a { b } }''
        None None None None None) =
       Inr \<lparr> content = [TextContent
         ''GraphQL server returned errors: field X not found, field Y not found, unauthorized''],
              isError = Some True \<rparr>"
proof -
  have s: "snd (handleGraphQLQuery sample_externals sample_config ''{ a { b } }'' None None None None None) =
     [sample_request]"
    by (simp add: sample_externals_def sample_parse_def sample_config_def handleGraphQLQuery_def
      handleGraphQLQuery_try_def default_arg_def isMutation_def error_result_def
      calculateQueryComplexity_def visit_def executeGraphQLQuery_def sample_request_def
      sample_response_def)
  have p: "axios_post sample_externals sample_request = Inr sample_response"
    by (simp add: sample_externals_def)
  have e: "body_errors (resp_data sample_response) = Some [\<lparr> message = ''field X not found'' \<rparr>]"
    by (simp add: sample_response_def)
  have s3: "snd (handleGraphQLQuery sample_externals_three_errors sample_config ''{ a { b } }''
        None None None None None) = [sample_request]"
    by (simp add: sample_externals_three_errors_def sample_externals_def sample_parse_def
      sample_config_def handleGraphQLQuery_def
      handleGraphQLQuery_try_def default_arg_def isMutation_def error_result_def
      calculateQueryComplexity_def visit_def executeGraphQLQuery_def sample_request_def
      sample_response_three_errors_def)
  have p3: "axios_post sample_externals_three_errors sample_request = Inr sample_response_three_errors"
    by (simp add: sample_externals_three_errors_def)
  have e3: "body_errors (resp_data sample_response_three_errors) =
       Some [\<lparr> message = ''field X not found'' \<rparr>, \<lparr> message = ''field Y not found'' \<rparr>,
             \<lparr> message = ''unauthorized'' \<rparr>]"
    by (simp add: sample_response_three_errors_def)
  from graphql_errors_reported [OF s p e] graphql_errors_reported [OF s3 p3 e3] s p e s3 p3 e3
  show ?thesis
    by (simp add: sample_response_def)
qed


end
